theory Spec2Isabelle
  imports Complex_Main "HOL-Library.Word" "HOL-Library.Monad_Syntax"
begin

unbundle bit_operations_syntax

section \<open>Shared vocabulary\<close>

text \<open>
  The development embeds the protocol layer of the iQE050 BBQ controller web app:
  the current \<open>BBQBluetooth\<close> class of \<open>bluetooth.js\<close> (the one with
  \<open>intentionalDisconnect\<close> and \<open>reconnect\<close>) and \<open>BBQApp.updateFuelMonitor\<close>
  of \<open>app.js\<close>.

  JavaScript numbers that hold integers are \<open>int\<close> or \<open>nat\<close>; the numbers of the
  fuel estimator are exact rationals (IEEE rounding is not modelled) extended with the
  non-finite results of a division by zero. Every \<open>await\<close> on the Web Bluetooth
  API is a fallible call whose outcome is supplied by the environment, and everything
  a method does to the outside (callbacks, console, timers, GATT writes) is returned
  as a list of events in program order.
\<close>

type_synonym u8 = "8 word"

datatype js_error = Error string | RangeError

record alarm_flags =
  unknown :: bool
  food1Enabled :: bool
  food2Enabled :: bool
  food1Done :: bool
  food2Done :: bool
  pitHot :: bool
  pitCold :: bool
  lidOpen :: bool

record reading =
  pitAlarm :: nat
  delayTime :: nat
  delayPitSet :: nat
  pitTemp :: nat
  food1Temp :: nat
  food2Temp :: nat
  byte9 :: u8
  pitSet :: nat
  food1Alarm :: nat
  food2Alarm :: nat
  fanDuty :: nat
  byte14 :: u8
  byte15 :: u8
  food1TempTrigger :: nat
  food1PitSet :: nat
  food2TempTrigger :: nat
  food2PitSet :: nat
  uptimeMin :: nat
  lidDetect :: nat
  fanSpeed :: nat
  heartbeat :: nat
  delayEnabled :: nat
  flags :: alarm_flags

datatype timer_action = Reconnect

datatype event =
    Status string string
  | ConsoleLog string
  | ConsoleWarn string
  | ConsoleError string
  | SetTimeout timer_action nat
  | Sleep nat
  | AddListener string
  | GattConnect
  | GattDisconnect
  | GattWrite "u8 list"
  | OnData reading

text \<open>
  The fields of a \<open>BBQBluetooth\<close> object. A handle field is \<open>True\<close> when it
  holds an object and \<open>False\<close> when it is \<open>null\<close>; \<open>device\<close> carries the
  selected device's name.
\<close>

record session =
  device :: "string option"
  server :: bool
  service :: bool
  telemetryChar :: bool
  writeChar :: bool
  connected :: bool
  onDataCallback :: bool
  onStatusCallback :: bool
  intentionalDisconnect :: bool
  paired :: bool

definition new_session :: session where
  "new_session =
     \<lparr>device = None, server = False, service = False, telemetryChar = False,
      writeChar = False, connected = False, onDataCallback = False,
      onStatusCallback = False, intentionalDisconnect = False, paired = False\<rparr>"

definition updateStatus :: "session \<Rightarrow> string \<Rightarrow> string \<Rightarrow> event list" where
  "updateStatus s state message =
     (if onStatusCallback s then [Status state message] else [])"

text \<open>A number as the decimal string a template literal interpolates.\<close>

fun show_nat :: "nat \<Rightarrow> string" where
  "show_nat n =
     (if n < 10 then [char_of (48 + n)]
      else show_nat (n div 10) @ [char_of (48 + n mod 10)])"

fun starts_with :: "string \<Rightarrow> string \<Rightarrow> bool" where
  "starts_with s [] = True"
| "starts_with [] (c # cs) = False"
| "starts_with (x # xs) (c # cs) = (x = c \<and> starts_with xs cs)"

fun str_includes :: "string \<Rightarrow> string \<Rightarrow> bool" where
  "str_includes [] sub = (sub = [])"
| "str_includes (x # xs) sub = (starts_with (x # xs) sub \<or> str_includes xs sub)"

section \<open>Telemetry codec\<close>

text \<open>
  A \<open>DataView\<close> is its byte list. Its accessors throw a \<open>RangeError\<close> when the
  read leaves the buffer, which is \<open>None\<close> here.
\<close>

definition getUint8 :: "u8 list \<Rightarrow> nat \<Rightarrow> nat option" where
  "getUint8 dataView i =
     (if i < length dataView then Some (unat (dataView ! i)) else None)"

definition getByte :: "u8 list \<Rightarrow> nat \<Rightarrow> u8 option" where
  "getByte dataView i =
     (if i < length dataView then Some (dataView ! i) else None)"

definition getUint16 :: "u8 list \<Rightarrow> nat \<Rightarrow> nat option" where
  "getUint16 dataView i =
     (if i + 1 < length dataView
      then Some (256 * unat (dataView ! i) + unat (dataView ! (i + 1)))
      else None)"

definition bit_set :: "u8 \<Rightarrow> u8 \<Rightarrow> bool" where
  "bit_set b m = (b AND m \<noteq> 0)"

definition parse_flags :: "u8 \<Rightarrow> alarm_flags" where
  "parse_flags b =
     \<lparr>unknown = bit_set b 0x01, food1Enabled = bit_set b 0x02,
      food2Enabled = bit_set b 0x04, food1Done = bit_set b 0x08,
      food2Done = bit_set b 0x10, pitHot = bit_set b 0x20,
      pitCold = bit_set b 0x40, lidOpen = bit_set b 0x80\<rparr>"

definition decode_fields :: "u8 list \<Rightarrow> reading option" where
  "decode_fields dataView = do {
     v_pitAlarm \<leftarrow> getUint8 dataView 0;
     v_delayTime \<leftarrow> getUint8 dataView 1;
     v_delayPitSet \<leftarrow> getUint8 dataView 2;
     v_pitTemp \<leftarrow> getUint16 dataView 3;
     v_food1Temp \<leftarrow> getUint16 dataView 5;
     v_food2Temp \<leftarrow> getUint16 dataView 7;
     v_byte9 \<leftarrow> getByte dataView 9;
     v_pitSet \<leftarrow> getUint8 dataView 10;
     v_food1Alarm \<leftarrow> getUint8 dataView 11;
     v_food2Alarm \<leftarrow> getUint8 dataView 12;
     v_fanDuty \<leftarrow> getUint8 dataView 13;
     v_byte14 \<leftarrow> getByte dataView 14;
     v_byte15 \<leftarrow> getByte dataView 15;
     v_food1TempTrigger \<leftarrow> getUint8 dataView 16;
     v_food1PitSet \<leftarrow> getUint8 dataView 17;
     v_food2TempTrigger \<leftarrow> getUint8 dataView 18;
     v_food2PitSet \<leftarrow> getUint8 dataView 19;
     Some \<lparr>pitAlarm = v_pitAlarm, delayTime = v_delayTime,
       delayPitSet = v_delayPitSet, pitTemp = v_pitTemp,
       food1Temp = v_food1Temp, food2Temp = v_food2Temp, byte9 = v_byte9,
       pitSet = v_pitSet, food1Alarm = v_food1Alarm, food2Alarm = v_food2Alarm,
       fanDuty = v_fanDuty, byte14 = v_byte14, byte15 = v_byte15,
       food1TempTrigger = v_food1TempTrigger, food1PitSet = v_food1PitSet,
       food2TempTrigger = v_food2TempTrigger, food2PitSet = v_food2PitSet,
       uptimeMin = unat (drop_bit 4 v_byte9 AND 0x0F),
       lidDetect = unat (drop_bit 3 v_byte9 AND 0x01),
       fanSpeed = unat (v_byte9 AND 0x07),
       heartbeat = unat (drop_bit 7 v_byte14 AND 0x01),
       delayEnabled = unat (v_byte14 AND 0x01),
       flags = parse_flags v_byte15\<rparr>
   }"

text \<open>
  \<open>handleTelemetry\<close>: the result is the thrown error, if any, or the events of the
  call. A buffer of the wrong size is warned about and dropped before any field is read.
\<close>

definition handleTelemetry :: "session \<Rightarrow> u8 list \<Rightarrow> js_error + event list" where
  "handleTelemetry s dataView =
     (if length dataView \<noteq> 20
      then Inr [ConsoleWarn ''Invalid telemetry packet size:'']
      else case decode_fields dataView of
             None \<Rightarrow> Inl RangeError
           | Some data \<Rightarrow> Inr (if onDataCallback s then [OnData data] else []))"

section \<open>Command codec\<close>

text \<open>
  \<open>sendCommand\<close>: \<open>ack\<close> is the outcome of \<open>writeValueWithResponse\<close>
  (\<open>None\<close> for an acknowledged write, otherwise the message of the rejection).
  \<open>new Uint8Array([command, value])\<close> stores each number modulo 256.
\<close>

type_synonym send_result = "(js_error + bool) \<times> session \<times> event list"

definition sendCommand :: "session \<Rightarrow> string option \<Rightarrow> int \<Rightarrow> int \<Rightarrow> send_result" where
  "sendCommand s ack command v =
     (if \<not> connected s \<or> \<not> writeChar s
      then (Inl (Error ''Not connected to device''), s, [])
      else let data = [word_of_int command, word_of_int v :: u8] in
        case ack of
          None \<Rightarrow> (Inr True, s\<lparr>paired := True\<rparr>,
                    [GattWrite data, ConsoleLog ''Sent command''])
        | Some message \<Rightarrow>
            (Inl (Error message), s,
             [GattWrite data, ConsoleError ''Write error''] @
             (if str_includes message ''GATT'' \<or> str_includes message ''auth''
                 \<or> str_includes message ''Security''
              then [ConsoleLog ''Write failed - device may need pairing'']
              else [])))"

definition setPitTemp :: "session \<Rightarrow> string option \<Rightarrow> int \<Rightarrow> send_result" where
  "setPitTemp s ack tempF =
     (let clamped = max 150 (min 400 tempF); v = clamped - 145
      in sendCommand s ack 0x01 v)"

definition setFood1Alarm :: "session \<Rightarrow> string option \<Rightarrow> int \<Rightarrow> send_result" where
  "setFood1Alarm s ack tempF =
     (let v = (if tempF = 0 then 0 else max 50 (min 250 tempF))
      in sendCommand s ack 0x02 v)"

definition setFood2Alarm :: "session \<Rightarrow> string option \<Rightarrow> int \<Rightarrow> send_result" where
  "setFood2Alarm s ack tempF =
     (let v = (if tempF = 0 then 0 else max 50 (min 250 tempF))
      in sendCommand s ack 0x03 v)"

definition setPitAlarm :: "session \<Rightarrow> string option \<Rightarrow> int \<Rightarrow> send_result" where
  "setPitAlarm s ack tempF =
     (let v = (if tempF = 0 then 0 else max 20 (min 100 tempF))
      in sendCommand s ack 0x04 v)"

definition setLidDetect :: "session \<Rightarrow> string option \<Rightarrow> bool \<Rightarrow> send_result" where
  "setLidDetect s ack enabled = sendCommand s ack 0x05 (if enabled then 1 else 0)"

definition setFanSpeed :: "session \<Rightarrow> string option \<Rightarrow> int \<Rightarrow> send_result" where
  "setFanSpeed s ack speed =
     (let v = max 0 (min 5 speed) in sendCommand s ack 0x06 v)"

definition setTempUnits :: "session \<Rightarrow> string option \<Rightarrow> bool \<Rightarrow> send_result" where
  "setTempUnits s ack fahrenheit = sendCommand s ack 0x07 (if fahrenheit then 0 else 1)"

definition setSoundLevel :: "session \<Rightarrow> string option \<Rightarrow> int \<Rightarrow> send_result" where
  "setSoundLevel s ack level =
     (let v = max 0 (min 5 level) in sendCommand s ack 0x08 v)"

text \<open>
  \<open>setDisplayBrightness\<close> logs its warning before the command is handed to
  \<open>sendCommand\<close>, so the warning is among the events whether or not the send succeeds.
\<close>

definition setDisplayBrightness :: "session \<Rightarrow> string option \<Rightarrow> int \<Rightarrow> send_result" where
  "setDisplayBrightness s ack level =
     (let v = max 1 (min 3 level);
          warn = (if level = 0
                  then [ConsoleWarn ''Display brightness: device may ignore 0 (off); sending 1 instead'']
                  else [])
      in case sendCommand s ack 0x09 v of (r, s', evs) \<Rightarrow> (r, s', warn @ evs))"

definition setDelayTime :: "session \<Rightarrow> string option \<Rightarrow> int \<Rightarrow> send_result" where
  "setDelayTime s ack fifteenMinBlocks =
     (let v = max 0 (min 96 fifteenMinBlocks) in sendCommand s ack 0x0A v)"

definition setDelayPitSet :: "session \<Rightarrow> string option \<Rightarrow> int \<Rightarrow> send_result" where
  "setDelayPitSet s ack tempF =
     (if tempF = 0 then sendCommand s ack 0x0B 0
      else let clamped = max 150 (min 400 tempF)
           in sendCommand s ack 0x0B (clamped - 145))"

definition setFood1TempTrigger :: "session \<Rightarrow> string option \<Rightarrow> int \<Rightarrow> send_result" where
  "setFood1TempTrigger s ack tempF =
     (let v = (if tempF = 0 then 0 else max 50 (min 250 tempF))
      in sendCommand s ack 0x0C v)"

definition setFood1PitSet :: "session \<Rightarrow> string option \<Rightarrow> int \<Rightarrow> send_result" where
  "setFood1PitSet s ack tempF =
     (if tempF = 0 then sendCommand s ack 0x0D 0
      else let clamped = max 150 (min 400 tempF)
           in sendCommand s ack 0x0D (clamped - 145))"

definition setFood2TempTrigger :: "session \<Rightarrow> string option \<Rightarrow> int \<Rightarrow> send_result" where
  "setFood2TempTrigger s ack tempF =
     (let v = (if tempF = 0 then 0 else max 50 (min 250 tempF))
      in sendCommand s ack 0x0E v)"

definition setFood2PitSet :: "session \<Rightarrow> string option \<Rightarrow> int \<Rightarrow> send_result" where
  "setFood2PitSet s ack tempF =
     (if tempF = 0 then sendCommand s ack 0x0F 0
      else let clamped = max 150 (min 400 tempF)
           in sendCommand s ack 0x0F (clamped - 145))"

text \<open>
  The frames a call hands to the write characteristic, and the pit target as the app
  reads it back from telemetry (\<open>updateTemperature\<close> in \<open>app.js\<close>:
  \<open>target > 0 ? target + 145 : 0\<close>).
\<close>

fun written_frames :: "event list \<Rightarrow> u8 list list" where
  "written_frames [] = []"
| "written_frames (GattWrite d # es) = d # written_frames es"
| "written_frames (e # es) = written_frames es"

definition frames_of :: "send_result \<Rightarrow> u8 list list" where
  "frames_of r = written_frames (snd (snd r))"

definition pitTargetTemp :: "nat \<Rightarrow> nat" where
  "pitTargetTemp target = (if target > 0 then target + 145 else 0)"

text \<open>A session in the Connected state with a resolved write endpoint.\<close>

definition live_session :: session where
  "live_session = new_session\<lparr>device := Some ''iQE050'', server := True, service := True,
     telemetryChar := True, writeChar := True, connected := True\<rparr>"

text \<open>
  The clamp of the opcode table, written as the table reads: a value below the range
  becomes its lower end, a value above it the upper end; for the settings that can be
  switched off, 0 passes through.
\<close>

definition clamp_range :: "int \<Rightarrow> int \<Rightarrow> int \<Rightarrow> int" where
  "clamp_range lo hi v = (if v < lo then lo else if hi < v then hi else v)"

definition clamp_or_off :: "int \<Rightarrow> int \<Rightarrow> int \<Rightarrow> int" where
  "clamp_or_off lo hi v = (if v = 0 then 0 else clamp_range lo hi v)"

section \<open>Connection session\<close>

text \<open>
  The outcomes of the Web Bluetooth calls of one \<open>connect\<close> or \<open>reconnect\<close>:
  \<open>None\<close> when the promise resolves, otherwise the message of the error it
  rejects with. \<open>gattConnect i\<close> is the outcome of the \<open>i\<close>-th call of
  \<open>device.gatt.connect()\<close>, counted from 0.
\<close>

record channel_env =
  requestDevice :: "string + string"
  gattConnect :: "nat \<Rightarrow> string option"
  getPrimaryService :: "string option"
  getTelemetryChar :: "string option"
  getWriteChar :: "string option"
  readWriteChar :: "string option"
  startNotifications :: "string option"

text \<open>
  The retry loop of \<open>connect\<close>: \<open>retries\<close> counts down from 3, \<open>i\<close> counts the
  attempts made. The result is whether a server handle was obtained, the last error,
  and the events.
\<close>

fun gatt_retry ::
  "session \<Rightarrow> (nat \<Rightarrow> string option) \<Rightarrow> nat \<Rightarrow> nat \<Rightarrow> string option
    \<Rightarrow> bool \<times> string option \<times> event list" where
  "gatt_retry s attempt 0 i lastError = (False, lastError, [])"
| "gatt_retry s attempt (Suc retries) i lastError =
     (case attempt i of
        None \<Rightarrow> (True, lastError, [GattConnect])
      | Some e \<Rightarrow>
          (case gatt_retry s attempt retries (Suc i) (Some e) of
             (ok, lastError', evs) \<Rightarrow>
               (ok, lastError',
                [GattConnect] @
                (if retries > 0
                 then updateStatus s ''connecting''
                        (''Retrying... ('' @ show_nat retries @ '' left)'') @
                      [Sleep 1000]
                 else []) @ evs)))"

definition connect_error_message :: "string \<Rightarrow> string" where
  "connect_error_message message =
     (if str_includes message ''GATT Server'' \<or> str_includes message ''disconnected''
      then ''GATT Server Disconnected. Try: 1. Disconnect device from phone Bluetooth 2. Remove device from Windows Bluetooth settings 3. Refresh page and try again''
      else if str_includes message ''User cancelled'' then ''Connection cancelled''
      else if str_includes message ''not found''
      then ''Device not found. Make sure BBQ controller is on and in range.''
      else message)"

definition connect_failed :: "session \<Rightarrow> event list \<Rightarrow> string \<Rightarrow> bool \<times> session \<times> event list" where
  "connect_failed s evs message =
     (False, s,
      evs @ [ConsoleError ''Connection error:''] @
      updateStatus s ''disconnected'' (connect_error_message message))"

text \<open>
  The inner \<open>try\<close> of \<open>connect\<close> around the write characteristic: a failed
  lookup is caught and leaves \<open>writeChar\<close> null; a failed authorization read is
  caught and only logged.
\<close>

definition resolve_write_char :: "session \<Rightarrow> channel_env \<Rightarrow> session \<times> event list" where
  "resolve_write_char s env =
     (case getWriteChar env of
        Some writeErr \<Rightarrow>
          (s\<lparr>writeChar := False\<rparr>,
           [ConsoleError ''Write characteristic 5fb70004 not found:''])
      | None \<Rightarrow>
          (case readWriteChar env of
             None \<Rightarrow>
               (s\<lparr>writeChar := True, paired := True\<rparr>,
                [ConsoleLog ''Got write-with-auth characteristic (5fb70004)'',
                 ConsoleLog ''Device is paired - write commands ready''])
           | Some pairErr \<Rightarrow>
               (s\<lparr>writeChar := True\<rparr>,
                [ConsoleLog ''Got write-with-auth characteristic (5fb70004)'',
                 ConsoleWarn ''Read from write char failed (may need pairing):''])))"

text \<open>The part of \<open>connect\<close> after the retry loop has left a server handle.\<close>

definition resolve_endpoints ::
  "session \<Rightarrow> channel_env \<Rightarrow> string \<Rightarrow> event list \<Rightarrow> bool \<times> session \<times> event list" where
  "resolve_endpoints s2 env name ev2 =
     (case getPrimaryService env of
        Some message \<Rightarrow> connect_failed s2 ev2 message
      | None \<Rightarrow>
          (let s3 = s2\<lparr>service := True\<rparr> in
           (case getTelemetryChar env of
              Some message \<Rightarrow> connect_failed s3 ev2 message
            | None \<Rightarrow>
                (let s4 = s3\<lparr>telemetryChar := True\<rparr> in
                 (case resolve_write_char s4 env of
                    (s5, ev5) \<Rightarrow>
                      (case startNotifications env of
                         Some message \<Rightarrow> connect_failed s5 (ev2 @ ev5) message
                       | None \<Rightarrow>
                           (True, s5\<lparr>connected := True\<rparr>,
                            ev2 @ ev5 @ [AddListener ''characteristicvaluechanged''] @
                            updateStatus s5 ''connected'' (''Connected to '' @ name))))))))"

definition connect :: "session \<Rightarrow> channel_env \<Rightarrow> bool \<times> session \<times> event list" where
  "connect s env =
     (let ev0 = updateStatus s ''connecting'' ''Scanning for devices...'' in
      (case requestDevice env of
         Inl message \<Rightarrow> connect_failed s ev0 message
       | Inr name \<Rightarrow>
           (let s1 = s\<lparr>device := Some name\<rparr>;
                ev1 = ev0 @ [AddListener ''gattserverdisconnected''] @
                      updateStatus s ''connecting'' (''Connecting to '' @ name @ ''...'')
            in (case gatt_retry s (gattConnect env) 3 0 None of
                  (ok, lastError, evr) \<Rightarrow>
                    (let s2 = (if ok then s1\<lparr>server := True\<rparr> else s1);
                         ev2 = ev1 @ evr
                     in (if \<not> server s2
                         then connect_failed s2 ev2
                                (case lastError of
                                   Some message \<Rightarrow> message
                                 | None \<Rightarrow> ''Failed to connect to GATT server'')
                         else resolve_endpoints s2 env name ev2))))))"

text \<open>
  \<open>onDisconnected\<close>, the listener of the device's \<open>gattserverdisconnected\<close> event.
  \<open>setTimeout(() => this.reconnect(), 2000)\<close> is the event \<open>SetTimeout Reconnect 2000\<close>.
\<close>

definition onDisconnected :: "session \<Rightarrow> session \<times> event list" where
  "onDisconnected s =
     (let wasConnected = connected s;
          s1 = s\<lparr>connected := False, server := False, service := False,
                 telemetryChar := False, writeChar := False\<rparr>;
          ev1 = updateStatus s ''disconnected'' ''Disconnected'';
          ev2 = (if wasConnected \<and> device s1 \<noteq> None \<and> \<not> intentionalDisconnect s1
                 then [ConsoleLog ''Unexpected disconnect - attempting auto-reconnect...''] @
                      updateStatus s ''connecting'' ''Reconnecting...'' @
                      [SetTimeout Reconnect 2000]
                 else [])
      in (s1\<lparr>intentionalDisconnect := False\<rparr>, ev1 @ ev2))"

definition reconnect_failed :: "session \<Rightarrow> event list \<Rightarrow> session \<times> event list" where
  "reconnect_failed s evs =
     (s\<lparr>device := None\<rparr>,
      evs @ [ConsoleError ''Reconnect failed:''] @
      updateStatus s ''disconnected'' ''Reconnect failed - click Connect'')"

definition reconnect :: "session \<Rightarrow> channel_env \<Rightarrow> session \<times> event list" where
  "reconnect s env =
     (case device s of
        None \<Rightarrow> (s, updateStatus s ''disconnected'' ''Device lost - please reconnect manually'')
      | Some name \<Rightarrow>
          (case gattConnect env 0 of
             Some message \<Rightarrow> reconnect_failed s [GattConnect]
           | None \<Rightarrow>
               (let s1 = s\<lparr>server := True\<rparr> in
                (case getPrimaryService env of
                   Some message \<Rightarrow> reconnect_failed s1 [GattConnect]
                 | None \<Rightarrow>
                     (let s2 = s1\<lparr>service := True\<rparr> in
                      (case getTelemetryChar env of
                         Some message \<Rightarrow> reconnect_failed s2 [GattConnect]
                       | None \<Rightarrow>
                           (let s3 = s2\<lparr>telemetryChar := True\<rparr>;
                                s4 = (case getWriteChar env of
                                        None \<Rightarrow> s3\<lparr>writeChar := True\<rparr>
                                      | Some e \<Rightarrow> s3\<lparr>writeChar := False\<rparr>)
                            in (case startNotifications env of
                                  Some message \<Rightarrow> reconnect_failed s4 [GattConnect]
                                | None \<Rightarrow>
                                    (s4\<lparr>connected := True\<rparr>,
                                     [GattConnect, AddListener ''characteristicvaluechanged''] @
                                     updateStatus s4 ''connected'' (''Reconnected to '' @ name))))))))))"

text \<open>
  \<open>disconnect\<close>. \<open>linkUp\<close> is \<open>device.gatt.connected\<close>. Closing a live link fires
  \<open>gattserverdisconnected\<close>, whose listener \<open>onDisconnected\<close> runs before
  \<open>gatt.disconnect()\<close> returns.
\<close>

definition disconnect :: "session \<Rightarrow> bool \<Rightarrow> session \<times> event list" where
  "disconnect s linkUp =
     (let s1 = s\<lparr>intentionalDisconnect := True\<rparr> in
      case (if device s1 \<noteq> None \<and> linkUp
            then (case onDisconnected s1 of (s', evs) \<Rightarrow> (s', GattDisconnect # evs))
            else (s1, [])) of
        (s2, ev2) \<Rightarrow>
          (s2\<lparr>connected := False, device := None, server := False, service := False,
              telemetryChar := False, writeChar := False\<rparr>,
           ev2 @ updateStatus s ''disconnected'' ''Disconnected''))"

fun timers :: "event list \<Rightarrow> (timer_action \<times> nat) list" where
  "timers [] = []"
| "timers (SetTimeout a ms # es) = (a, ms) # timers es"
| "timers (e # es) = timers es"

fun connect_attempts :: "event list \<Rightarrow> nat" where
  "connect_attempts [] = 0"
| "connect_attempts (GattConnect # es) = Suc (connect_attempts es)"
| "connect_attempts (e # es) = connect_attempts es"

text \<open>The reconnect cycle goes through when every call the session needs resolves.\<close>

definition reconnect_succeeds :: "channel_env \<Rightarrow> bool" where
  "reconnect_succeeds env =
     (gattConnect env 0 = None \<and> getPrimaryService env = None \<and>
      getTelemetryChar env = None \<and> startNotifications env = None)"

section \<open>Fuel estimator\<close>

text \<open>
  The numbers of \<open>updateFuelMonitor\<close>. A drop rate is a quotient whose divisor, the
  elapsed time, can be zero, so it can be infinite or \<open>NaN\<close>; sums, means and
  comparisons of drop rates follow the IEEE rules for those values.
\<close>

datatype jsnum = Fin rat | PosInf | NegInf | NaN

definition js_div :: "rat \<Rightarrow> rat \<Rightarrow> jsnum" where
  "js_div a b =
     (if b = 0 then (if a = 0 then NaN else if 0 < a then PosInf else NegInf)
      else Fin (a / b))"

fun js_add :: "jsnum \<Rightarrow> jsnum \<Rightarrow> jsnum" where
  "js_add (Fin a) (Fin b) = Fin (a + b)"
| "js_add NaN y = NaN"
| "js_add x NaN = NaN"
| "js_add PosInf NegInf = NaN"
| "js_add NegInf PosInf = NaN"
| "js_add PosInf y = PosInf"
| "js_add x PosInf = PosInf"
| "js_add NegInf y = NegInf"
| "js_add x NegInf = NegInf"

text \<open>Division by a positive count, and \<open>x < c\<close> for a finite constant \<open>c\<close>.\<close>

fun js_div_count :: "jsnum \<Rightarrow> nat \<Rightarrow> jsnum" where
  "js_div_count (Fin a) n = Fin (a / of_nat n)"
| "js_div_count x n = x"

fun js_less :: "jsnum \<Rightarrow> rat \<Rightarrow> bool" where
  "js_less (Fin a) c = (a < c)"
| "js_less NegInf c = True"
| "js_less PosInf c = False"
| "js_less NaN c = False"

text \<open>
  \<open>this.fuelMonitor\<close>. A history entry \<open>{time, duty}\<close> or \<open>{time, rate}\<close> is the
  pair of its two fields; times are milliseconds, as \<open>Date.now()\<close> gives them.
\<close>

record fuelMonitor =
  fanDutyHistory :: "(int \<times> rat) list"
  tempDropHistory :: "(int \<times> jsnum) list"
  lastPitTemp :: "nat option"
  lastCheckTime :: "int option"
  lowFuelAlerted :: bool

definition new_fuelMonitor :: fuelMonitor where
  "new_fuelMonitor =
     \<lparr>fanDutyHistory = [], tempDropHistory = [], lastPitTemp = None,
      lastCheckTime = None, lowFuelAlerted = False\<rparr>"

text \<open>
  What one update shows: the two averages and the fuel level written to the page, and
  whether \<open>showNotification('Low Fuel Warning', ...)\<close> was called.
\<close>

record fuel_status =
  avgFanDuty :: rat
  avgTempDrop :: jsnum
  fuelLevel :: nat
  lowFuelNotified :: bool

definition fanDutyPercent :: "reading \<Rightarrow> rat" where
  "fanDutyPercent data =
     (if fanSpeed data = 0
      then (if pitTemp data \<noteq> 999 \<and> pitSet data > 0
            then let targetTemp = int (pitSet data) - 145;
                     diff = targetTemp - int (pitTemp data)
                 in max 0 (min 100 ((of_int diff / 50) * 100 + 30))
            else 0)
      else (of_nat (fanSpeed data) / 7) * 100)"

definition dropSample :: "fuelMonitor \<Rightarrow> int \<Rightarrow> reading \<Rightarrow> (int \<times> jsnum) list" where
  "dropSample m now data =
     (case lastPitTemp m of
        None \<Rightarrow> []
      | Some lastPit \<Rightarrow>
          (case lastCheckTime m of
             None \<Rightarrow> []
           | Some lastTime \<Rightarrow>
               (if pitTemp data \<noteq> 999
                then let timeDiff = of_int (now - lastTime) / 1000 / 60;
                         tempDiff = int (pitTemp data) - int lastPit;
                         dropRate = js_div (of_int tempDiff) timeDiff
                     in [(now, dropRate)]
                else [])))"

definition average_duty :: "(int \<times> rat) list \<Rightarrow> rat" where
  "average_duty h =
     (if length h > 0
      then foldl (\<lambda>sum d. sum + snd d) 0 h / of_nat (length h)
      else 0)"

definition average_drop :: "(int \<times> jsnum) list \<Rightarrow> jsnum" where
  "average_drop h =
     (if length h > 0
      then js_div_count (foldl (\<lambda>sum d. js_add sum (snd d)) (Fin 0) h) (length h)
      else Fin 0)"

definition estimate_level :: "nat \<Rightarrow> nat \<Rightarrow> rat \<Rightarrow> jsnum \<Rightarrow> nat" where
  "estimate_level dutyCount dropCount avgDuty avgDrop =
     (if dutyCount > 10 \<and> dropCount > 5
      then (if avgDuty > 60 \<and> js_less avgDrop (- (1 / 2)) then 20
            else if avgDuty > 50 \<and> js_less avgDrop (- (1 / 5)) then 40
            else if avgDuty > 40 then 70
            else 100)
      else 100)"

text \<open>
  \<open>updateFuelMonitor(data)\<close>, with \<open>now = Date.now()\<close> as an argument. The writes to
  the page are the returned status.
\<close>

definition updateFuelMonitor :: "fuelMonitor \<Rightarrow> int \<Rightarrow> reading \<Rightarrow> fuelMonitor \<times> fuel_status" where
  "updateFuelMonitor m now data =
     (let duties = fanDutyHistory m @ [(now, fanDutyPercent data)];
          drops = tempDropHistory m @ dropSample m now data;
          cutoff = now - 30 * 60 * 1000;
          duties' = filter (\<lambda>d. fst d \<ge> cutoff) duties;
          drops' = filter (\<lambda>d. fst d \<ge> cutoff) drops;
          avgDuty = average_duty duties';
          avgDrop = average_drop drops';
          level = estimate_level (length duties') (length drops') avgDuty avgDrop;
          notify = (level \<le> 20 \<and> \<not> lowFuelAlerted m);
          alerted' = (if level \<le> 20 then True
                      else if level \<le> 40 then lowFuelAlerted m
                      else False)
      in (\<lparr>fanDutyHistory = duties', tempDropHistory = drops',
           lastPitTemp = Some (pitTemp data), lastCheckTime = Some now,
           lowFuelAlerted = alerted'\<rparr>,
          \<lparr>avgFanDuty = avgDuty, avgTempDrop = avgDrop, fuelLevel = level,
           lowFuelNotified = notify\<rparr>))"

text \<open>A stream of readings, each with the time it arrives at; the statuses in order.\<close>

fun run_updates :: "fuelMonitor \<Rightarrow> (int \<times> reading) list \<Rightarrow> fuelMonitor \<times> fuel_status list" where
  "run_updates m [] = (m, [])"
| "run_updates m ((now, data) # rest) =
     (case updateFuelMonitor m now data of
        (m', st) \<Rightarrow> (case run_updates m' rest of (m'', sts) \<Rightarrow> (m'', st # sts)))"



text \<open>
  The reading decoded from a frame that carries the given fan speed (byte 9), pit
  temperature (bytes 3-4) and raw pit set (byte 10) and is zero everywhere else.
\<close>

definition sample_frame :: "nat \<Rightarrow> nat \<Rightarrow> nat \<Rightarrow> u8 list" where
  "sample_frame fan pit rawSet =
     [0, 0, 0, of_nat (pit div 256), of_nat (pit mod 256), 0, 0, 0, 0, of_nat fan,
      of_nat rawSet, 0, 0, 0, 0, 0, 0, 0, 0, 0]"

definition sample_reading :: "nat \<Rightarrow> nat \<Rightarrow> nat \<Rightarrow> reading" where
  "sample_reading fan pit rawSet =
     \<lparr>pitAlarm = 0, delayTime = 0, delayPitSet = 0, pitTemp = pit, food1Temp = 0,
      food2Temp = 0, byte9 = of_nat fan, pitSet = rawSet, food1Alarm = 0,
      food2Alarm = 0, fanDuty = 0, byte14 = 0, byte15 = 0, food1TempTrigger = 0,
      food1PitSet = 0, food2TempTrigger = 0, food2PitSet = 0, uptimeMin = 0,
      lidDetect = 0, fanSpeed = fan, heartbeat = 0, delayEnabled = 0,
      flags = parse_flags 0\<rparr>"

section \<open>Observations and concrete runs\<close>

text \<open>The readings a call of \<open>handleTelemetry\<close> hands to the data callback.\<close>

fun delivered :: "js_error + event list \<Rightarrow> reading list" where
  "delivered (Inl e) = []"
| "delivered (Inr []) = []"
| "delivered (Inr (OnData d # es)) = d # delivered (Inr es)"
| "delivered (Inr (e # es)) = delivered (Inr es)"

text \<open>Environments for concrete runs: one whose link cannot be reopened, one whose
  write characteristic is missing, and one where every call resolves.\<close>

definition failing_env :: channel_env where
  "failing_env =
     \<lparr>requestDevice = Inr ''iQE050'', gattConnect = (\<lambda>i. Some ''GATT operation failed''),
      getPrimaryService = None, getTelemetryChar = None, getWriteChar = None,
      readWriteChar = None, startNotifications = None\<rparr>"

definition no_write_env :: channel_env where
  "no_write_env =
     \<lparr>requestDevice = Inr ''iQE050'', gattConnect = (\<lambda>i. None),
      getPrimaryService = None, getTelemetryChar = None,
      getWriteChar = Some ''No Characteristics matching UUID found'',
      readWriteChar = None, startNotifications = None\<rparr>"

definition healthy_env :: channel_env where
  "healthy_env =
     \<lparr>requestDevice = Inr ''iQE050'', gattConnect = (\<lambda>i. None),
      getPrimaryService = None, getTelemetryChar = None, getWriteChar = None,
      readWriteChar = None, startNotifications = None\<rparr>"

text \<open>
  A session of fourteen readings one minute apart: the pit temperature falls by one
  degree a minute from 300, the fan is at manual speed 5 for eleven readings and at
  speed 1 for the last three. \<open>warmed_monitor\<close> is the estimator after the first ten,
  and \<open>alerts\<close> counts the low-fuel notifications of a run.
\<close>

definition declining_run :: "(int \<times> reading) list" where
  "declining_run =
     map (\<lambda>i. (60000 * int i, sample_reading (if i < 11 then 5 else 1) (300 - i) 80)) [0..<14]"

definition alerts :: "fuel_status list \<Rightarrow> nat" where
  "alerts sts = length (filter lowFuelNotified sts)"


text \<open>The messages a call passes to \<open>console.warn\<close>.\<close>

fun warnings :: "event list \<Rightarrow> string list" where
  "warnings [] = []"
| "warnings (ConsoleWarn w # es) = w # warnings es"
| "warnings (e # es) = warnings es"

definition events_of :: "send_result \<Rightarrow> event list" where
  "events_of r = snd (snd r)"

section \<open>Telemetry codec: properties\<close>

lemma decode_fields_total:
  assumes "length dataView = 20"
  shows "\<exists>data. decode_fields dataView = Some data"
  using assms by (simp add: decode_fields_def getUint8_def getByte_def getUint16_def)

lemma fan_cases: "fan < 8 \<Longrightarrow> fan \<in> {0, 1, 2, 3, 4, 5, 6, 7::nat}"
  by auto

lemma fan_fields:
  assumes "fan < 8"
  shows "unat ((of_nat fan :: u8) AND 0x07) = fan"
    and "unat (drop_bit 4 (of_nat fan :: u8) AND 0x0F) = 0"
    and "unat (drop_bit 3 (of_nat fan :: u8) AND 0x01) = 0"
  using fan_cases[OF assms] by auto

lemma decode_sample_frame:
  assumes "fan < 8" "pit < 65536" "rawSet < 256"
  shows "decode_fields (sample_frame fan pit rawSet) = Some (sample_reading fan pit rawSet)"
proof -
  have hi: "unat (of_nat (pit div 256) :: u8) = pit div 256"
    using assms(2) by (simp add: unat_of_nat)
  have lo: "unat (of_nat (pit mod 256) :: u8) = pit mod 256"
    by (simp add: unat_of_nat)
  have rs: "unat (of_nat rawSet :: u8) = rawSet"
    using assms(3) by (simp add: unat_of_nat)
  show ?thesis
    by (simp add: decode_fields_def getUint8_def getByte_def getUint16_def
        sample_frame_def sample_reading_def hi lo rs fan_fields[OF assms(1)])
qed

text \<open>
  C1. A buffer whose length is not 20 is warned about and dropped: the call returns
  without an error, and no reading reaches the data callback. For a buffer of exactly
  20 bytes every field read succeeds, so the decoder yields a reading, and that reading
  is what the callback (when one is registered) receives. The decoder is a function of
  the bytes, so equal frames give equal readings.
\<close>

theorem handleTelemetry_frame_length:
  "(length dataView \<noteq> 20 \<longrightarrow>
      handleTelemetry s dataView = Inr [ConsoleWarn ''Invalid telemetry packet size:'']
      \<and> delivered (handleTelemetry s dataView) = [])
   \<and> (length dataView = 20 \<longrightarrow>
      (\<exists>data. decode_fields dataView = Some data \<and>
         handleTelemetry s dataView = Inr (if onDataCallback s then [OnData data] else [])
         \<and> delivered (handleTelemetry s dataView) = (if onDataCallback s then [data] else [])))"
  using decode_fields_total[of dataView]
  by (auto simp: handleTelemetry_def)

theorem handleTelemetry_frame_length_witness:
  "(length ([1, 2, 3] :: u8 list) \<noteq> 20 \<and>
      delivered (handleTelemetry (new_session\<lparr>onDataCallback := True\<rparr>) [1, 2, 3]) = [])
   \<and> (length (sample_frame 2 200 80) = 20 \<and>
      (\<exists>data. decode_fields (sample_frame 2 200 80) = Some data \<and>
         delivered (handleTelemetry (new_session\<lparr>onDataCallback := True\<rparr>)
           (sample_frame 2 200 80)) = [data]))"
proof -
  let ?s = "new_session\<lparr>onDataCallback := True\<rparr>"
  have short: "length ([1, 2, 3] :: u8 list) \<noteq> 20" by simp
  have full: "length (sample_frame 2 200 80) = 20" by (simp add: sample_frame_def)
  have cb: "onDataCallback ?s" by simp
  show ?thesis
    using handleTelemetry_frame_length[of "[1, 2, 3]" ?s]
      handleTelemetry_frame_length[of "sample_frame 2 200 80" ?s] short full cb
    by auto
qed

section \<open>Command codec: properties\<close>

lemma u8_arg: "0 \<le> k \<Longrightarrow> k < 256 \<Longrightarrow> unat (word_of_int k :: u8) = nat k"
  by (simp add: unat_eq_nat_uint uint_word_of_int take_bit_int_eq_self)

lemma frames_sendCommand:
  "connected s \<Longrightarrow> writeChar s \<Longrightarrow>
   frames_of (sendCommand s ack c v) = [[word_of_int c, word_of_int v]]"
  by (cases ack) (simp_all add: sendCommand_def frames_of_def)

lemma pit_arg_decodes:
  assumes "150 \<le> x" "x \<le> 400"
  shows "int (unat (word_of_int (x - 145) :: u8)) = x - 145"
    and "int (pitTargetTemp (unat (word_of_int (x - 145) :: u8))) = x"
proof -
  have "unat (word_of_int (x - 145) :: u8) = nat (x - 145)"
    using assms by (intro u8_arg) simp_all
  then show "int (unat (word_of_int (x - 145) :: u8)) = x - 145"
    and "int (pitTargetTemp (unat (word_of_int (x - 145) :: u8))) = x"
    using assms by (simp_all add: pitTargetTemp_def)
qed

lemma pit_family_frames:
  assumes "150 \<le> x" "x \<le> 400" "connected s" "writeChar s"
  shows "frames_of (setPitTemp s ack x) = [[0x01, word_of_int (x - 145)]]"
    and "frames_of (setDelayPitSet s ack x) = [[0x0B, word_of_int (x - 145)]]"
    and "frames_of (setFood1PitSet s ack x) = [[0x0D, word_of_int (x - 145)]]"
    and "frames_of (setFood2PitSet s ack x) = [[0x0F, word_of_int (x - 145)]]"
proof -
  have cl: "max 150 (min 400 x) = x" and nz: "x \<noteq> 0" using assms by simp_all
  show "frames_of (setPitTemp s ack x) = [[0x01, word_of_int (x - 145)]]"
    unfolding setPitTemp_def Let_def cl
    using frames_sendCommand[OF assms(3,4), of ack "0x01" "x - 145"] by simp
  show "frames_of (setDelayPitSet s ack x) = [[0x0B, word_of_int (x - 145)]]"
    unfolding setDelayPitSet_def Let_def cl
    using frames_sendCommand[OF assms(3,4), of ack "0x0B" "x - 145"] nz by simp
  show "frames_of (setFood1PitSet s ack x) = [[0x0D, word_of_int (x - 145)]]"
    unfolding setFood1PitSet_def Let_def cl
    using frames_sendCommand[OF assms(3,4), of ack "0x0D" "x - 145"] nz by simp
  show "frames_of (setFood2PitSet s ack x) = [[0x0F, word_of_int (x - 145)]]"
    unfolding setFood2PitSet_def Let_def cl
    using frames_sendCommand[OF assms(3,4), of ack "0x0F" "x - 145"] nz by simp
qed

lemma decode_pitSet:
  assumes "length dataView = 20" "decode_fields dataView = Some data"
  shows "pitSet data = unat (dataView ! 10)"
  using assms
  by (auto simp: decode_fields_def getUint8_def getByte_def getUint16_def)

text \<open>
  C2. For every target \<open>x\<close> from 150 to 400 degrees, each pit-set encoder (pit set,
  delay pit set, food 1 and food 2 pit set) sends the argument byte \<open>x - 145\<close>, and
  reading that byte back as the app does (\<open>raw + 145\<close>), directly or out of byte 10 of
  a telemetry frame, gives \<open>x\<close> again. For 225 degrees the argument byte is 80, and
  byte 80 reads back as 225.
\<close>

theorem pit_set_round_trip:
  "(150 \<le> x \<and> x \<le> 400 \<and> connected s \<and> writeChar s \<longrightarrow>
      (\<exists>arg. frames_of (setPitTemp s ack x) = [[0x01, arg]]
         \<and> frames_of (setDelayPitSet s ack x) = [[0x0B, arg]]
         \<and> frames_of (setFood1PitSet s ack x) = [[0x0D, arg]]
         \<and> frames_of (setFood2PitSet s ack x) = [[0x0F, arg]]
         \<and> int (unat arg) = x - 145
         \<and> int (pitTargetTemp (unat arg)) = x
         \<and> (\<forall>dataView data. length dataView = 20 \<and> dataView ! 10 = arg
               \<and> decode_fields dataView = Some data
               \<longrightarrow> int (pitTargetTemp (pitSet data)) = x)))
   \<and> frames_of (setPitTemp live_session None 225) = [[0x01, 80]]
   \<and> pitTargetTemp (unat (80 :: u8)) = 225"
proof (intro conjI impI)
  assume a: "150 \<le> x \<and> x \<le> 400 \<and> connected s \<and> writeChar s"
  then have r: "150 \<le> x" "x \<le> 400" and c: "connected s" "writeChar s" by simp_all
  let ?arg = "word_of_int (x - 145) :: u8"
  have "\<forall>dataView data. length dataView = 20 \<and> dataView ! 10 = ?arg
          \<and> decode_fields dataView = Some data
          \<longrightarrow> int (pitTargetTemp (pitSet data)) = x"
    using decode_pitSet pit_arg_decodes(2)[OF r] by metis
  then show "\<exists>arg. frames_of (setPitTemp s ack x) = [[0x01, arg]]
         \<and> frames_of (setDelayPitSet s ack x) = [[0x0B, arg]]
         \<and> frames_of (setFood1PitSet s ack x) = [[0x0D, arg]]
         \<and> frames_of (setFood2PitSet s ack x) = [[0x0F, arg]]
         \<and> int (unat arg) = x - 145
         \<and> int (pitTargetTemp (unat arg)) = x
         \<and> (\<forall>dataView data. length dataView = 20 \<and> dataView ! 10 = arg
               \<and> decode_fields dataView = Some data
               \<longrightarrow> int (pitTargetTemp (pitSet data)) = x)"
    using pit_family_frames[OF r c, of ack] pit_arg_decodes[OF r]
    by (intro exI[of _ ?arg]) simp
next
  show "frames_of (setPitTemp live_session None 225) = [[0x01, 80]]"
    by (simp add: setPitTemp_def sendCommand_def frames_of_def live_session_def new_session_def)
next
  show "pitTargetTemp (unat (80 :: u8)) = 225"
    by (simp add: pitTargetTemp_def)
qed

theorem pit_set_round_trip_witness:
  "(150::int) \<le> 225 \<and> (225::int) \<le> 400 \<and> connected live_session \<and> writeChar live_session
   \<and> (\<exists>arg. frames_of (setPitTemp live_session None 225) = [[0x01, arg]]
         \<and> int (unat arg) = 225 - 145
         \<and> int (pitTargetTemp (unat arg)) = 225)"
proof -
  have c: "connected live_session" "writeChar live_session"
    by (simp_all add: live_session_def new_session_def)
  with pit_set_round_trip[of 225 live_session None]
  obtain arg where "frames_of (setPitTemp live_session None 225) = [[0x01, arg]]"
    "int (unat arg) = 225 - 145" "int (pitTargetTemp (unat arg)) = 225"
    by auto
  with c show ?thesis by auto
qed

lemmas encoder_defs =
  setPitTemp_def setFood1Alarm_def setFood2Alarm_def setPitAlarm_def setFanSpeed_def
  setSoundLevel_def setDelayTime_def setDelayPitSet_def
  setFood1TempTrigger_def setFood1PitSet_def setFood2TempTrigger_def setFood2PitSet_def

lemma clamp_absorbed:
  "setPitTemp s ack (clamp_range 150 400 v) = setPitTemp s ack v"
  "setFood1Alarm s ack (clamp_or_off 50 250 v) = setFood1Alarm s ack v"
  "setFood2Alarm s ack (clamp_or_off 50 250 v) = setFood2Alarm s ack v"
  "setPitAlarm s ack (clamp_or_off 20 100 v) = setPitAlarm s ack v"
  "setFanSpeed s ack (clamp_range 0 5 v) = setFanSpeed s ack v"
  "setSoundLevel s ack (clamp_range 0 5 v) = setSoundLevel s ack v"
  "setDelayTime s ack (clamp_range 0 96 v) = setDelayTime s ack v"
  "setDelayPitSet s ack (clamp_or_off 150 400 v) = setDelayPitSet s ack v"
  "setFood1TempTrigger s ack (clamp_or_off 50 250 v) = setFood1TempTrigger s ack v"
  "setFood1PitSet s ack (clamp_or_off 150 400 v) = setFood1PitSet s ack v"
  "setFood2TempTrigger s ack (clamp_or_off 50 250 v) = setFood2TempTrigger s ack v"
  "setFood2PitSet s ack (clamp_or_off 150 400 v) = setFood2PitSet s ack v"
  by (simp_all add: encoder_defs clamp_range_def clamp_or_off_def)

lemma brightness_frames:
  "connected s \<Longrightarrow> writeChar s \<Longrightarrow>
   frames_of (setDisplayBrightness s ack v) = [[0x09, word_of_int (clamp_range 1 3 v)]]"
  by (cases ack) (simp_all add: setDisplayBrightness_def clamp_range_def sendCommand_def frames_of_def Let_def)

lemma brightness_clamp_absorbed:
  "frames_of (setDisplayBrightness s ack (clamp_range 1 3 v)) = frames_of (setDisplayBrightness s ack v)"
  "fst (setDisplayBrightness s ack (clamp_range 1 3 v)) = fst (setDisplayBrightness s ack v)"
  by (cases ack; simp add: setDisplayBrightness_def clamp_range_def sendCommand_def frames_of_def Let_def)+

lemma encoder_frames:
  assumes "connected s" "writeChar s"
  shows "frames_of (setPitTemp s ack v) = [[0x01, word_of_int (clamp_range 150 400 v - 145)]]"
    "frames_of (setFood1Alarm s ack v) = [[0x02, word_of_int (clamp_or_off 50 250 v)]]"
    "frames_of (setFood2Alarm s ack v) = [[0x03, word_of_int (clamp_or_off 50 250 v)]]"
    "frames_of (setPitAlarm s ack v) = [[0x04, word_of_int (clamp_or_off 20 100 v)]]"
    "frames_of (setFanSpeed s ack v) = [[0x06, word_of_int (clamp_range 0 5 v)]]"
    "frames_of (setSoundLevel s ack v) = [[0x08, word_of_int (clamp_range 0 5 v)]]"
    "frames_of (setDelayTime s ack v) = [[0x0A, word_of_int (clamp_range 0 96 v)]]"
    "frames_of (setDelayPitSet s ack v) =
       [[0x0B, word_of_int (if v = 0 then 0 else clamp_range 150 400 v - 145)]]"
    "frames_of (setFood1TempTrigger s ack v) = [[0x0C, word_of_int (clamp_or_off 50 250 v)]]"
    "frames_of (setFood1PitSet s ack v) =
       [[0x0D, word_of_int (if v = 0 then 0 else clamp_range 150 400 v - 145)]]"
    "frames_of (setFood2TempTrigger s ack v) = [[0x0E, word_of_int (clamp_or_off 50 250 v)]]"
    "frames_of (setFood2PitSet s ack v) =
       [[0x0F, word_of_int (if v = 0 then 0 else clamp_range 150 400 v - 145)]]"
  using assms
  by (simp_all add: encoder_defs clamp_range_def clamp_or_off_def frames_sendCommand Let_def)

lemma switch_frames:
  assumes "connected s" "writeChar s"
  shows "frames_of (setLidDetect s ack enabled) = [[0x05, if enabled then 1 else 0]]"
    "frames_of (setTempUnits s ack fahrenheit) = [[0x07, if fahrenheit then 0 else 1]]"
    "fst (setLidDetect s None enabled) = Inr True"
    "fst (setTempUnits s None fahrenheit) = Inr True"
proof -
  show "frames_of (setLidDetect s ack enabled) = [[0x05, if enabled then 1 else 0]]"
    "frames_of (setTempUnits s ack fahrenheit) = [[0x07, if fahrenheit then 0 else 1]]"
    using assms by (simp_all add: setLidDetect_def setTempUnits_def frames_sendCommand)
  show "fst (setLidDetect s None enabled) = Inr True"
    "fst (setTempUnits s None fahrenheit) = Inr True"
    using assms by (simp_all add: setLidDetect_def setTempUnits_def sendCommand_def)
qed

lemma encoder_never_rejects:
  assumes "connected s" "writeChar s"
  shows "fst (setPitTemp s None v) = Inr True" "fst (setFood1Alarm s None v) = Inr True"
    "fst (setFood2Alarm s None v) = Inr True" "fst (setPitAlarm s None v) = Inr True"
    "fst (setFanSpeed s None v) = Inr True" "fst (setSoundLevel s None v) = Inr True"
    "fst (setDisplayBrightness s None v) = Inr True" "fst (setDelayTime s None v) = Inr True"
    "fst (setDelayPitSet s None v) = Inr True" "fst (setFood1TempTrigger s None v) = Inr True"
    "fst (setFood1PitSet s None v) = Inr True" "fst (setFood2TempTrigger s None v) = Inr True"
    "fst (setFood2PitSet s None v) = Inr True"
  using assms
  by (simp_all add: encoder_defs setDisplayBrightness_def sendCommand_def Let_def)

text \<open>
  C3. Every encoder with a numeric setting clamps before it transforms, and re-clamping
  changes nothing: encoding the clamped value gives the same call result as encoding
  the value itself (for display brightness the same frame and the same outcome; its
  console warning for level 0 is the one difference). On a connected session the
  frame is the opcode with the transformed clamp of the input; no input is rejected for
  its value, an acknowledged write always succeeds. \<open>setPitTemp(500)\<close> and
  \<open>setPitTemp(400)\<close> both send \<open>[0x01, 255]\<close>. \<open>setLidDetect\<close> and
  \<open>setTempUnits\<close> take a truth value and send 0 or 1.
\<close>

theorem encode_absorbs_clamp:
  "setPitTemp s ack (clamp_range 150 400 v) = setPitTemp s ack v
   \<and> setFood1Alarm s ack (clamp_or_off 50 250 v) = setFood1Alarm s ack v
   \<and> setFood2Alarm s ack (clamp_or_off 50 250 v) = setFood2Alarm s ack v
   \<and> setPitAlarm s ack (clamp_or_off 20 100 v) = setPitAlarm s ack v
   \<and> setFanSpeed s ack (clamp_range 0 5 v) = setFanSpeed s ack v
   \<and> setSoundLevel s ack (clamp_range 0 5 v) = setSoundLevel s ack v
   \<and> frames_of (setDisplayBrightness s ack (clamp_range 1 3 v))
       = frames_of (setDisplayBrightness s ack v)
   \<and> fst (setDisplayBrightness s ack (clamp_range 1 3 v))
       = fst (setDisplayBrightness s ack v)
   \<and> setDelayTime s ack (clamp_range 0 96 v) = setDelayTime s ack v
   \<and> setDelayPitSet s ack (clamp_or_off 150 400 v) = setDelayPitSet s ack v
   \<and> setFood1TempTrigger s ack (clamp_or_off 50 250 v) = setFood1TempTrigger s ack v
   \<and> setFood1PitSet s ack (clamp_or_off 150 400 v) = setFood1PitSet s ack v
   \<and> setFood2TempTrigger s ack (clamp_or_off 50 250 v) = setFood2TempTrigger s ack v
   \<and> setFood2PitSet s ack (clamp_or_off 150 400 v) = setFood2PitSet s ack v
   \<and> (connected s \<and> writeChar s \<longrightarrow>
        frames_of (setPitTemp s ack v) = [[0x01, word_of_int (clamp_range 150 400 v - 145)]]
      \<and> frames_of (setFood1Alarm s ack v) = [[0x02, word_of_int (clamp_or_off 50 250 v)]]
      \<and> frames_of (setFood2Alarm s ack v) = [[0x03, word_of_int (clamp_or_off 50 250 v)]]
      \<and> frames_of (setPitAlarm s ack v) = [[0x04, word_of_int (clamp_or_off 20 100 v)]]
      \<and> frames_of (setFanSpeed s ack v) = [[0x06, word_of_int (clamp_range 0 5 v)]]
      \<and> frames_of (setSoundLevel s ack v) = [[0x08, word_of_int (clamp_range 0 5 v)]]
      \<and> frames_of (setDisplayBrightness s ack v) = [[0x09, word_of_int (clamp_range 1 3 v)]]
      \<and> frames_of (setDelayTime s ack v) = [[0x0A, word_of_int (clamp_range 0 96 v)]]
      \<and> frames_of (setDelayPitSet s ack v)
          = [[0x0B, word_of_int (if v = 0 then 0 else clamp_range 150 400 v - 145)]]
      \<and> frames_of (setFood1TempTrigger s ack v) = [[0x0C, word_of_int (clamp_or_off 50 250 v)]]
      \<and> frames_of (setFood1PitSet s ack v)
          = [[0x0D, word_of_int (if v = 0 then 0 else clamp_range 150 400 v - 145)]]
      \<and> frames_of (setFood2TempTrigger s ack v) = [[0x0E, word_of_int (clamp_or_off 50 250 v)]]
      \<and> frames_of (setFood2PitSet s ack v)
          = [[0x0F, word_of_int (if v = 0 then 0 else clamp_range 150 400 v - 145)]]
      \<and> frames_of (setLidDetect s ack enabled) = [[0x05, if enabled then 1 else 0]]
      \<and> frames_of (setTempUnits s ack fahrenheit) = [[0x07, if fahrenheit then 0 else 1]]
      \<and> fst (setLidDetect s None enabled) = Inr True
      \<and> fst (setTempUnits s None fahrenheit) = Inr True
      \<and> fst (setPitTemp s None v) = Inr True
      \<and> fst (setFood1Alarm s None v) = Inr True
      \<and> fst (setFood2Alarm s None v) = Inr True
      \<and> fst (setPitAlarm s None v) = Inr True
      \<and> fst (setFanSpeed s None v) = Inr True
      \<and> fst (setSoundLevel s None v) = Inr True
      \<and> fst (setDisplayBrightness s None v) = Inr True
      \<and> fst (setDelayTime s None v) = Inr True
      \<and> fst (setDelayPitSet s None v) = Inr True
      \<and> fst (setFood1TempTrigger s None v) = Inr True
      \<and> fst (setFood1PitSet s None v) = Inr True
      \<and> fst (setFood2TempTrigger s None v) = Inr True
      \<and> fst (setFood2PitSet s None v) = Inr True)
   \<and> frames_of (setPitTemp live_session None 500) = [[0x01, 255]]
   \<and> frames_of (setPitTemp live_session None 400) = [[0x01, 255]]"
proof -
  have live: "frames_of (setPitTemp live_session None 500) = [[0x01, 255]]"
    "frames_of (setPitTemp live_session None 400) = [[0x01, 255]]"
    by (simp_all add: setPitTemp_def sendCommand_def frames_of_def live_session_def
        new_session_def)
  show ?thesis
    using clamp_absorbed[of s ack v] brightness_clamp_absorbed[of s ack v]
      encoder_frames[of s ack v] brightness_frames[of s ack v]
      encoder_never_rejects[of s v] switch_frames(1)[of s ack enabled]
      switch_frames(2)[of s ack fahrenheit] switch_frames(3)[of s enabled]
      switch_frames(4)[of s fahrenheit] live
    by simp
qed

theorem encode_absorbs_clamp_witness:
  "connected live_session \<and> writeChar live_session
   \<and> setPitTemp live_session None (clamp_range 150 400 500) = setPitTemp live_session None 500
   \<and> clamp_range 150 400 500 = 400
   \<and> frames_of (setPitTemp live_session None 500) = [[0x01, 255]]
   \<and> fst (setPitTemp live_session None 500) = Inr True
   \<and> frames_of (setFood1Alarm live_session None 7) = [[0x02, 50]]"
proof -
  have c: "connected live_session" "writeChar live_session"
    by (simp_all add: live_session_def new_session_def)
  have k: "clamp_range 150 400 500 = 400" "clamp_or_off 50 250 7 = 50"
    by (simp_all add: clamp_range_def clamp_or_off_def)
  have f: "frames_of (setFood1Alarm live_session None 7) = [[0x02, 50]]"
    using encode_absorbs_clamp[of live_session None 7] c k by simp
  show ?thesis
    using encode_absorbs_clamp[of live_session None 500] c k f by simp
qed

lemma warnings_sendCommand: "warnings (events_of (sendCommand s ack c v)) = []"
  by (cases ack) (simp_all add: sendCommand_def events_of_def)

lemma warnings_brightness:
  "warnings (events_of (setDisplayBrightness s ack level)) =
     (if level = 0
      then [''Display brightness: device may ignore 0 (off); sending 1 instead'']
      else [])"
proof -
  obtain r s' evs where sc: "sendCommand s ack 0x09 (max 1 (min 3 level)) = (r, s', evs)"
    by (cases "sendCommand s ack 0x09 (max 1 (min 3 level))") auto
  then have "warnings evs = []"
    using warnings_sendCommand[of s ack "0x09" "max 1 (min 3 level)"]
    by (simp add: events_of_def)
  then show ?thesis
    using sc by (simp add: setDisplayBrightness_def events_of_def Let_def)
qed

lemma brightness_arg_range:
  "int (unat (word_of_int (clamp_range 1 3 level) :: u8)) = clamp_range 1 3 level"
  "1 \<le> unat (word_of_int (clamp_range 1 3 level) :: u8)"
  "unat (word_of_int (clamp_range 1 3 level) :: u8) \<le> 3"
proof -
  have b: "1 \<le> clamp_range 1 3 level" "clamp_range 1 3 level \<le> 3"
    by (simp_all add: clamp_range_def)
  then have "unat (word_of_int (clamp_range 1 3 level) :: u8) = nat (clamp_range 1 3 level)"
    by (intro u8_arg) simp_all
  with b show "int (unat (word_of_int (clamp_range 1 3 level) :: u8)) = clamp_range 1 3 level"
    "1 \<le> unat (word_of_int (clamp_range 1 3 level) :: u8)"
    "unat (word_of_int (clamp_range 1 3 level) :: u8) \<le> 3"
    by simp_all
qed

text \<open>
  C8. Display brightness, opcode 0x09. A request for level 0 is sent as level 1, and the
  call logs a console warning about the substitution; that warning is logged for level 0
  and for no other level, whether or not the session can send. For every requested level
  the transmitted argument is the level clamped to 1..3, and an acknowledged write
  reports success.
\<close>

theorem display_brightness_substitutes_zero:
  "warnings (events_of (setDisplayBrightness s ack level)) =
     (if level = 0
      then [''Display brightness: device may ignore 0 (off); sending 1 instead'']
      else [])
   \<and> (connected s \<and> writeChar s \<longrightarrow>
        frames_of (setDisplayBrightness s ack 0) = [[0x09, 1]]
      \<and> fst (setDisplayBrightness s None 0) = Inr True
      \<and> (\<exists>arg. frames_of (setDisplayBrightness s ack level) = [[0x09, arg]]
             \<and> int (unat arg) = clamp_range 1 3 level
             \<and> 1 \<le> unat arg \<and> unat arg \<le> 3))"
proof (intro conjI impI)
  show "warnings (events_of (setDisplayBrightness s ack level)) =
     (if level = 0
      then [''Display brightness: device may ignore 0 (off); sending 1 instead'']
      else [])"
    by (rule warnings_brightness)
next
  assume c: "connected s \<and> writeChar s"
  then show "frames_of (setDisplayBrightness s ack 0) = [[0x09, 1]]"
    using brightness_frames[of s ack 0] by (simp add: clamp_range_def)
  from c show "fst (setDisplayBrightness s None 0) = Inr True"
    using encoder_never_rejects(7)[of s 0] by simp
  let ?arg = "word_of_int (clamp_range 1 3 level) :: u8"
  have "frames_of (setDisplayBrightness s ack level) = [[0x09, ?arg]]"
    using c brightness_frames[of s ack level] by simp
  moreover have "int (unat ?arg) = clamp_range 1 3 level"
    "1 \<le> unat ?arg" "unat ?arg \<le> 3"
    using brightness_arg_range[of level] by simp_all
  ultimately show "\<exists>arg. frames_of (setDisplayBrightness s ack level) = [[0x09, arg]]
             \<and> int (unat arg) = clamp_range 1 3 level
             \<and> 1 \<le> unat arg \<and> unat arg \<le> 3"
    by blast
qed

theorem display_brightness_substitutes_zero_witness:
  "connected live_session \<and> writeChar live_session
   \<and> warnings (events_of (setDisplayBrightness live_session None 0)) =
        [''Display brightness: device may ignore 0 (off); sending 1 instead'']
   \<and> frames_of (setDisplayBrightness live_session None 0) = [[0x09, 1]]
   \<and> fst (setDisplayBrightness live_session None 0) = Inr True"
proof -
  have c: "connected live_session" "writeChar live_session"
    by (simp_all add: live_session_def new_session_def)
  show ?thesis
    using display_brightness_substitutes_zero[of live_session None 0] c by simp
qed

section \<open>Connection session: properties\<close>

lemma timers_append: "timers (xs @ ys) = timers xs @ timers ys"
  by (induction xs rule: timers.induct) simp_all

lemma attempts_append: "connect_attempts (xs @ ys) = connect_attempts xs + connect_attempts ys"
  by (induction xs rule: connect_attempts.induct) simp_all

lemma timers_updateStatus: "timers (updateStatus s st msg) = []"
  by (simp add: updateStatus_def)

lemma attempts_updateStatus: "connect_attempts (updateStatus s st msg) = 0"
  by (simp add: updateStatus_def)

lemma onDisconnected_unsolicited:
  assumes "connected s" "device s = Some name" "\<not> intentionalDisconnect s"
  shows "timers (snd (onDisconnected s)) = [(Reconnect, 2000)]"
    and "fst (onDisconnected s) =
           s\<lparr>connected := False, server := False, service := False,
             telemetryChar := False, writeChar := False, intentionalDisconnect := False\<rparr>"
  using assms
  by (simp_all add: onDisconnected_def Let_def timers_append timers_updateStatus)

lemma onDisconnected_quiet:
  assumes "\<not> connected s \<or> device s = None \<or> intentionalDisconnect s"
  shows "timers (snd (onDisconnected s)) = []"
  using assms
  by (auto simp: onDisconnected_def Let_def timers_append timers_updateStatus)

lemma reconnect_failed_effects:
  "timers (snd (reconnect_failed s [GattConnect])) = []"
  "connect_attempts (snd (reconnect_failed s [GattConnect])) = 1"
  "device (fst (reconnect_failed s [GattConnect])) = None"
  "connected (fst (reconnect_failed s [GattConnect])) = connected s"
  "snd (reconnect_failed s [GattConnect]) =
     [GattConnect, ConsoleError ''Reconnect failed:''] @
     updateStatus s ''disconnected'' ''Reconnect failed - click Connect''"
  by (simp_all add: reconnect_failed_def timers_append attempts_append
      timers_updateStatus attempts_updateStatus)

lemma reconnect_one_attempt:
  assumes "device s = Some name"
  shows "connect_attempts (snd (reconnect s env)) = 1"
    and "timers (snd (reconnect s env)) = []"
  using assms
  by (simp_all add: reconnect_def Let_def reconnect_failed_effects timers_append
      attempts_append timers_updateStatus attempts_updateStatus split: option.splits)

lemma reconnect_failure:
  assumes "device s = Some name" "\<not> connected s" "\<not> reconnect_succeeds env"
  shows "\<not> connected (fst (reconnect s env))"
    and "device (fst (reconnect s env)) = None"
    and "snd (reconnect s env) =
           [GattConnect, ConsoleError ''Reconnect failed:''] @
           updateStatus s ''disconnected'' ''Reconnect failed - click Connect''"
  using assms
  by (auto simp: reconnect_def Let_def reconnect_failed_def reconnect_succeeds_def
      updateStatus_def split: option.splits)

lemma reconnect_success:
  assumes "device s = Some name" "reconnect_succeeds env"
  shows "connected (fst (reconnect s env))"
    and "device (fst (reconnect s env)) = Some name"
    and "writeChar (fst (reconnect s env)) = (getWriteChar env = None)"
  using assms
  by (auto simp: reconnect_def Let_def reconnect_succeeds_def split: option.splits)

lemma reconnect_lost:
  assumes "device s = None"
  shows "connect_attempts (snd (reconnect s env)) = 0"
    and "timers (snd (reconnect s env)) = []"
    and "fst (reconnect s env) = s"
  using assms
  by (simp_all add: reconnect_def timers_updateStatus attempts_updateStatus)

lemma disconnect_effects:
  "timers (snd (disconnect s linkUp)) = []"
  "device (fst (disconnect s linkUp)) = None"
  "\<not> connected (fst (disconnect s linkUp))"
  by (auto simp: disconnect_def onDisconnected_def Let_def timers_append timers_updateStatus
      split: prod.splits if_splits)

text \<open>
  C9. When the link of a connected session with a remembered device drops and the
  intentional-disconnect flag is clear, \<open>onDisconnected\<close> schedules exactly one timer,
  \<open>reconnect\<close> after 2000 ms, and keeps the device. That \<open>reconnect\<close> calls
  \<open>gatt.connect()\<close> exactly once and schedules nothing more. If the cycle goes through,
  the session is connected again; if any step fails, the session is left disconnected,
  the device is forgotten, the failure is reported through \<open>updateStatus\<close>, and a later
  disconnect event schedules nothing. \<open>disconnect()\<close> schedules no reconnect, neither
  when the disconnect event is delivered inside the call nor when it arrives afterwards,
  and a timer that is still pending finds no device and makes no attempt.
\<close>

theorem auto_reconnect_single_shot:
  "(connected s \<and> device s = Some name \<and> \<not> intentionalDisconnect s \<longrightarrow>
      timers (snd (onDisconnected s)) = [(Reconnect, 2000)]
    \<and> \<not> connected (fst (onDisconnected s))
    \<and> device (fst (onDisconnected s)) = Some name
    \<and> connect_attempts (snd (reconnect (fst (onDisconnected s)) env)) = 1
    \<and> timers (snd (reconnect (fst (onDisconnected s)) env)) = []
    \<and> (reconnect_succeeds env \<longrightarrow>
          connected (fst (reconnect (fst (onDisconnected s)) env))
        \<and> device (fst (reconnect (fst (onDisconnected s)) env)) = Some name)
    \<and> (\<not> reconnect_succeeds env \<longrightarrow>
          \<not> connected (fst (reconnect (fst (onDisconnected s)) env))
        \<and> device (fst (reconnect (fst (onDisconnected s)) env)) = None
        \<and> snd (reconnect (fst (onDisconnected s)) env) =
             [GattConnect, ConsoleError ''Reconnect failed:''] @
             updateStatus s ''disconnected'' ''Reconnect failed - click Connect''
        \<and> timers (snd (onDisconnected (fst (reconnect (fst (onDisconnected s)) env)))) = []))
   \<and> timers (snd (disconnect s linkUp)) = []
   \<and> timers (snd (onDisconnected (fst (disconnect s linkUp)))) = []
   \<and> connect_attempts (snd (reconnect (fst (disconnect s linkUp)) env)) = 0"
proof (intro conjI impI)
  assume a: "connected s \<and> device s = Some name \<and> \<not> intentionalDisconnect s"
  let ?s1 = "fst (onDisconnected s)"
  have s1: "?s1 = s\<lparr>connected := False, server := False, service := False,
             telemetryChar := False, writeChar := False, intentionalDisconnect := False\<rparr>"
    using a onDisconnected_unsolicited(2)[of s name] by simp
  have d1: "device ?s1 = Some name" and c1: "\<not> connected ?s1"
    using a by (simp_all add: s1)
  have st: "\<And>x y. updateStatus ?s1 x y = updateStatus s x y"
    by (simp add: s1 updateStatus_def)
  show "timers (snd (onDisconnected s)) = [(Reconnect, 2000)]"
    using a onDisconnected_unsolicited(1)[of s name] by simp
  show "\<not> connected ?s1" by (rule c1)
  show "device ?s1 = Some name" by (rule d1)
  show "connect_attempts (snd (reconnect ?s1 env)) = 1"
    by (rule reconnect_one_attempt(1)[OF d1])
  show "timers (snd (reconnect ?s1 env)) = []"
    by (rule reconnect_one_attempt(2)[OF d1])
  {
    assume ok: "reconnect_succeeds env"
    show "connected (fst (reconnect ?s1 env))"
      by (rule reconnect_success(1)[OF d1 ok])
    show "device (fst (reconnect ?s1 env)) = Some name"
      by (rule reconnect_success(2)[OF d1 ok])
  }
  {
    assume ko: "\<not> reconnect_succeeds env"
    show "\<not> connected (fst (reconnect ?s1 env))"
      by (rule reconnect_failure(1)[OF d1 c1 ko])
    show lost: "device (fst (reconnect ?s1 env)) = None"
      by (rule reconnect_failure(2)[OF d1 c1 ko])
    show "snd (reconnect ?s1 env) =
             [GattConnect, ConsoleError ''Reconnect failed:''] @
             updateStatus s ''disconnected'' ''Reconnect failed - click Connect''"
      using reconnect_failure(3)[OF d1 c1 ko] by (simp only: st)
    show "timers (snd (onDisconnected (fst (reconnect ?s1 env)))) = []"
      using lost by (intro onDisconnected_quiet) simp
  }
next
  show "timers (snd (disconnect s linkUp)) = []"
    by (rule disconnect_effects(1))
  show "timers (snd (onDisconnected (fst (disconnect s linkUp)))) = []"
    using disconnect_effects(2)[of s linkUp] by (intro onDisconnected_quiet) simp
  show "connect_attempts (snd (reconnect (fst (disconnect s linkUp)) env)) = 0"
    using disconnect_effects(2)[of s linkUp] by (rule reconnect_lost(1))
qed

theorem auto_reconnect_single_shot_witness:
  "connected live_session \<and> device live_session = Some ''iQE050''
   \<and> \<not> intentionalDisconnect live_session
   \<and> \<not> reconnect_succeeds failing_env
   \<and> timers (snd (onDisconnected live_session)) = [(Reconnect, 2000)]
   \<and> connect_attempts (snd (reconnect (fst (onDisconnected live_session)) failing_env)) = 1
   \<and> device (fst (reconnect (fst (onDisconnected live_session)) failing_env)) = None
   \<and> \<not> connected (fst (reconnect (fst (onDisconnected live_session)) failing_env))
   \<and> timers (snd (disconnect live_session True)) = []"
proof -
  have h: "connected live_session" "device live_session = Some ''iQE050''"
    "\<not> intentionalDisconnect live_session"
    by (simp_all add: live_session_def new_session_def)
  have f: "\<not> reconnect_succeeds failing_env"
    by (simp add: reconnect_succeeds_def failing_env_def)
  show ?thesis
    using auto_reconnect_single_shot[of live_session "''iQE050''" failing_env True] h f
    by (simp add: attempts_updateStatus)
qed

lemma gatt_retry_ok:
  "fst (gatt_retry s attempt n i lastError) = (\<exists>k<n. attempt (i + k) = None)"
proof (induction n arbitrary: i lastError)
  case 0
  then show ?case by simp
next
  case (Suc n)
  show ?case
  proof (cases "attempt i")
    case None
    then have "attempt (i + 0) = None" by simp
    then have "\<exists>k<Suc n. attempt (i + k) = None" by blast
    with None show ?thesis by simp
  next
    case (Some e)
    have "(\<exists>k<Suc n. attempt (i + k) = None) = (\<exists>k<n. attempt (Suc i + k) = None)"
    proof
      assume "\<exists>k<Suc n. attempt (i + k) = None"
      then obtain k where k: "k < Suc n" "attempt (i + k) = None" by blast
      with Some have "k \<noteq> 0" by (cases k) auto
      then obtain j where "k = Suc j" by (cases k) auto
      with k show "\<exists>k<n. attempt (Suc i + k) = None" by auto
    next
      assume "\<exists>k<n. attempt (Suc i + k) = None"
      then obtain k where "k < n" "attempt (i + Suc k) = None" by auto
      then show "\<exists>k<Suc n. attempt (i + k) = None"
        by (intro exI[of _ "Suc k"]) simp
    qed
    with Some Suc.IH[of "Suc i" "Some e"] show ?thesis
      by (cases "gatt_retry s attempt n (Suc i) (Some e)") simp
  qed
qed

lemma connect_without_write_char:
  assumes "requestDevice env = Inr name" "\<exists>k<3. gattConnect env k = None"
    "getPrimaryService env = None" "getTelemetryChar env = None"
    "getWriteChar env = Some writeErr" "startNotifications env = None"
  shows "fst (connect s env) = True"
    and "connected (fst (snd (connect s env)))"
    and "\<not> writeChar (fst (snd (connect s env)))"
    and "device (fst (snd (connect s env))) = Some name"
proof -
  obtain ok lastError evr where g: "gatt_retry s (gattConnect env) 3 0 None = (ok, lastError, evr)"
    by (cases "gatt_retry s (gattConnect env) 3 0 None") auto
  have "ok" using gatt_retry_ok[of s "gattConnect env" 3 0 None] g assms(2) by simp
  with g assms show "fst (connect s env) = True"
    and "connected (fst (snd (connect s env)))"
    and "\<not> writeChar (fst (snd (connect s env)))"
    and "device (fst (snd (connect s env))) = Some name"
    by (simp_all add: connect_def resolve_endpoints_def resolve_write_char_def Let_def)
qed

lemma sendCommand_no_endpoint:
  assumes "\<not> writeChar s"
  shows "sendCommand s ack c v = (Inl (Error ''Not connected to device''), s, [])"
  using assms by (simp add: sendCommand_def)

text \<open>
  C10. If the device is selected, one of the three \<open>gatt.connect()\<close> attempts, the
  service lookup, the telemetry characteristic lookup and the subscription succeed but
  the lookup of the write characteristic fails, then \<open>connect\<close> still returns
  \<open>true\<close> with the session connected and \<open>writeChar\<close> null. Every
  \<open>sendCommand\<close> on that session throws \<open>Not connected to device\<close> and writes
  nothing. After a disconnect event and a reconnect that does resolve the write
  characteristic, an acknowledged command succeeds.
\<close>

theorem connected_without_write_endpoint:
  "requestDevice env = Inr name \<and> (\<exists>k<3. gattConnect env k = None)
   \<and> getPrimaryService env = None \<and> getTelemetryChar env = None
   \<and> getWriteChar env = Some writeErr \<and> startNotifications env = None
   \<longrightarrow>
     fst (connect s env) = True
   \<and> connected (fst (snd (connect s env)))
   \<and> \<not> writeChar (fst (snd (connect s env)))
   \<and> (\<forall>ack c v. sendCommand (fst (snd (connect s env))) ack c v
          = (Inl (Error ''Not connected to device''), fst (snd (connect s env)), []))
   \<and> (\<forall>env'. reconnect_succeeds env' \<and> getWriteChar env' = None \<longrightarrow>
          (\<forall>c v. fst (sendCommand
             (fst (reconnect (fst (onDisconnected (fst (snd (connect s env))))) env'))
             None c v) = Inr True))"
proof (intro impI)
  assume a: "requestDevice env = Inr name \<and> (\<exists>k<3. gattConnect env k = None)
   \<and> getPrimaryService env = None \<and> getTelemetryChar env = None
   \<and> getWriteChar env = Some writeErr \<and> startNotifications env = None"
  let ?s' = "fst (snd (connect s env))"
  have r: "fst (connect s env) = True" "connected ?s'" "\<not> writeChar ?s'"
    "device ?s' = Some name"
    using a connect_without_write_char[of env name writeErr s] by simp_all
  have nc: "\<forall>ack c v. sendCommand ?s' ack c v
          = (Inl (Error ''Not connected to device''), ?s', [])"
    using sendCommand_no_endpoint[OF r(3)] by simp
  have d: "device (fst (onDisconnected ?s')) = Some name"
    using r(4) by (simp add: onDisconnected_def Let_def)
  have "\<forall>env'. reconnect_succeeds env' \<and> getWriteChar env' = None \<longrightarrow>
          (\<forall>c v. fst (sendCommand (fst (reconnect (fst (onDisconnected ?s')) env'))
             None c v) = Inr True)"
    using reconnect_success[OF d] by (simp add: sendCommand_def)
  with r nc show "fst (connect s env) = True
   \<and> connected ?s' \<and> \<not> writeChar ?s'
   \<and> (\<forall>ack c v. sendCommand ?s' ack c v = (Inl (Error ''Not connected to device''), ?s', []))
   \<and> (\<forall>env'. reconnect_succeeds env' \<and> getWriteChar env' = None \<longrightarrow>
          (\<forall>c v. fst (sendCommand
             (fst (reconnect (fst (onDisconnected ?s')) env'))
             None c v) = Inr True))"
    by blast
qed

theorem connected_without_write_endpoint_witness:
  "requestDevice no_write_env = Inr ''iQE050'' \<and> (\<exists>k<3. gattConnect no_write_env k = None)
   \<and> getPrimaryService no_write_env = None \<and> getTelemetryChar no_write_env = None
   \<and> getWriteChar no_write_env = Some ''No Characteristics matching UUID found''
   \<and> startNotifications no_write_env = None
   \<and> fst (connect new_session no_write_env) = True
   \<and> connected (fst (snd (connect new_session no_write_env)))
   \<and> fst (sendCommand (fst (snd (connect new_session no_write_env))) None 0x01 80)
        = Inl (Error ''Not connected to device'')
   \<and> reconnect_succeeds healthy_env \<and> getWriteChar healthy_env = None
   \<and> fst (sendCommand
        (fst (reconnect (fst (onDisconnected (fst (snd (connect new_session no_write_env)))))
           healthy_env)) None 0x01 80) = Inr True"
proof -
  have e: "requestDevice no_write_env = Inr ''iQE050''"
    "gattConnect no_write_env 0 = None"
    "getPrimaryService no_write_env = None" "getTelemetryChar no_write_env = None"
    "getWriteChar no_write_env = Some ''No Characteristics matching UUID found''"
    "startNotifications no_write_env = None"
    by (simp_all add: no_write_env_def)
  have k: "\<exists>k<3. gattConnect no_write_env k = None"
    using e(2) by (intro exI[of _ 0]) simp
  have h: "reconnect_succeeds healthy_env" "getWriteChar healthy_env = None"
    by (simp_all add: reconnect_succeeds_def healthy_env_def)
  show ?thesis
    using connected_without_write_endpoint[of no_write_env "''iQE050''"
        "''No Characteristics matching UUID found''" new_session] e k h
    by simp
qed

section \<open>Fuel estimator: properties\<close>










lemma update_alert:
  "lowFuelNotified (snd (updateFuelMonitor m now data)) =
     (fuelLevel (snd (updateFuelMonitor m now data)) \<le> 20 \<and> \<not> lowFuelAlerted m)"
  "lowFuelAlerted (fst (updateFuelMonitor m now data)) =
     (if fuelLevel (snd (updateFuelMonitor m now data)) \<le> 20 then True
      else if fuelLevel (snd (updateFuelMonitor m now data)) \<le> 40 then lowFuelAlerted m
      else False)"
  by (simp_all add: updateFuelMonitor_def Let_def)

lemma level_values:
  "fuelLevel (snd (updateFuelMonitor m now data)) \<in> {20, 40, 70, 100}"
  by (simp add: updateFuelMonitor_def Let_def estimate_level_def)

lemma run_cons:
  "run_updates m ((now, data) # rest) =
     (fst (run_updates (fst (updateFuelMonitor m now data)) rest),
      snd (updateFuelMonitor m now data)
        # snd (run_updates (fst (updateFuelMonitor m now data)) rest))"
  by (simp split: prod.splits)

lemma run_append:
  "run_updates m (xs @ ys) =
     (fst (run_updates (fst (run_updates m xs)) ys),
      snd (run_updates m xs) @ snd (run_updates (fst (run_updates m xs)) ys))"
proof (induction xs arbitrary: m)
  case Nil
  then show ?case by simp
next
  case (Cons x xs)
  obtain now data where x: "x = (now, data)" by (cases x)
  show ?case
    using Cons.IH[of "fst (updateFuelMonitor m now data)"]
    by (simp add: x run_cons del: run_updates.simps)
qed

lemma run_above:
  "\<not> lowFuelAlerted m \<Longrightarrow> list_all (\<lambda>st. fuelLevel st > 20) (snd (run_updates m xs)) \<Longrightarrow>
   alerts (snd (run_updates m xs)) = 0 \<and> \<not> lowFuelAlerted (fst (run_updates m xs))"
proof (induction xs arbitrary: m)
  case Nil
  then show ?case by (simp add: alerts_def)
next
  case (Cons x xs)
  obtain now data where x: "x = (now, data)" by (cases x)
  let ?m' = "fst (updateFuelMonitor m now data)"
  let ?st = "snd (updateFuelMonitor m now data)"
  have run: "run_updates m (x # xs) = (fst (run_updates ?m' xs), ?st # snd (run_updates ?m' xs))"
    by (simp only: x run_cons)
  from Cons.prems(2) have hi: "fuelLevel ?st > 20"
    and rest: "list_all (\<lambda>st. fuelLevel st > 20) (snd (run_updates ?m' xs))"
    by (simp_all add: run)
  have quiet: "\<not> lowFuelNotified ?st" and clear: "\<not> lowFuelAlerted ?m'"
    using hi Cons.prems(1) by (simp_all add: update_alert)
  from Cons.IH[OF clear rest] quiet show ?case
    by (simp add: run alerts_def)
qed

lemma run_critical_alerted:
  "lowFuelAlerted m \<Longrightarrow> list_all (\<lambda>st. fuelLevel st \<le> 20) (snd (run_updates m xs)) \<Longrightarrow>
   alerts (snd (run_updates m xs)) = 0"
proof (induction xs arbitrary: m)
  case Nil
  then show ?case by (simp add: alerts_def)
next
  case (Cons x xs)
  obtain now data where x: "x = (now, data)" by (cases x)
  let ?m' = "fst (updateFuelMonitor m now data)"
  let ?st = "snd (updateFuelMonitor m now data)"
  have run: "run_updates m (x # xs) = (fst (run_updates ?m' xs), ?st # snd (run_updates ?m' xs))"
    by (simp only: x run_cons)
  from Cons.prems(2) have lo: "fuelLevel ?st \<le> 20"
    and rest: "list_all (\<lambda>st. fuelLevel st \<le> 20) (snd (run_updates ?m' xs))"
    by (simp_all add: run)
  have quiet: "\<not> lowFuelNotified ?st" and still: "lowFuelAlerted ?m'"
    using lo Cons.prems(1) by (simp_all add: update_alert)
  from Cons.IH[OF still rest] quiet show ?case
    by (simp add: run alerts_def)
qed

lemma run_critical_entry:
  assumes "\<not> lowFuelAlerted m" "xs \<noteq> []"
    "list_all (\<lambda>st. fuelLevel st \<le> 20) (snd (run_updates m xs))"
  shows "alerts (snd (run_updates m xs)) = 1"
proof -
  obtain now data rest where xs: "xs = (now, data) # rest"
    using assms(2) by (cases xs) auto
  let ?m' = "fst (updateFuelMonitor m now data)"
  let ?st = "snd (updateFuelMonitor m now data)"
  have run: "run_updates m xs = (fst (run_updates ?m' rest), ?st # snd (run_updates ?m' rest))"
    by (simp only: xs run_cons)
  from assms(3) have lo: "fuelLevel ?st \<le> 20"
    and rest: "list_all (\<lambda>st. fuelLevel st \<le> 20) (snd (run_updates ?m' rest))"
    by (simp_all add: run)
  have fired: "lowFuelNotified ?st" and set: "lowFuelAlerted ?m'"
    using lo assms(1) by (simp_all add: update_alert)
  from run_critical_alerted[OF set rest] fired show ?thesis
    by (simp add: run alerts_def)
qed

text \<open>
  C7, as amended. An update emits the low-fuel alert exactly when its level is at most 20
  and the alerted flag is clear, and it then sets the flag. The flag is cleared by an
  update whose level is above 40 (70 or 100) and is left as it is at level 40. So in any
  run that starts with the flag clear, stays above 20 and then enters the critical level
  and stays there, the alert fires exactly once.
\<close>

theorem low_fuel_alert_one_shot:
  "lowFuelNotified (snd (updateFuelMonitor m now data)) =
     (fuelLevel (snd (updateFuelMonitor m now data)) \<le> 20 \<and> \<not> lowFuelAlerted m)
   \<and> lowFuelAlerted (fst (updateFuelMonitor m now data)) =
     (fuelLevel (snd (updateFuelMonitor m now data)) \<le> 20
      \<or> fuelLevel (snd (updateFuelMonitor m now data)) = 40 \<and> lowFuelAlerted m)
   \<and> (fuelLevel (snd (updateFuelMonitor m now data)) > 40
        \<longrightarrow> \<not> lowFuelAlerted (fst (updateFuelMonitor m now data)))
   \<and> (\<not> lowFuelAlerted m
        \<and> list_all (\<lambda>st. fuelLevel st > 20) (snd (run_updates m before))
        \<and> critical \<noteq> []
        \<and> list_all (\<lambda>st. fuelLevel st \<le> 20)
             (snd (run_updates (fst (run_updates m before)) critical))
       \<longrightarrow> alerts (snd (run_updates m (before @ critical))) = 1)"
proof (intro conjI impI)
  let ?st = "snd (updateFuelMonitor m now data)"
  show "lowFuelNotified ?st = (fuelLevel ?st \<le> 20 \<and> \<not> lowFuelAlerted m)"
    by (rule update_alert(1))
  show "lowFuelAlerted (fst (updateFuelMonitor m now data)) =
     (fuelLevel ?st \<le> 20 \<or> fuelLevel ?st = 40 \<and> lowFuelAlerted m)"
    using level_values[of m now data] by (auto simp: update_alert(2))
  show "\<not> lowFuelAlerted (fst (updateFuelMonitor m now data))" if "fuelLevel ?st > 40"
    using that by (simp add: update_alert(2))
next
  assume a: "\<not> lowFuelAlerted m
        \<and> list_all (\<lambda>st. fuelLevel st > 20) (snd (run_updates m before))
        \<and> critical \<noteq> []
        \<and> list_all (\<lambda>st. fuelLevel st \<le> 20)
             (snd (run_updates (fst (run_updates m before)) critical))"
  then have pre: "alerts (snd (run_updates m before)) = 0"
    and clear: "\<not> lowFuelAlerted (fst (run_updates m before))"
    using run_above[of m before] by simp_all
  have "alerts (snd (run_updates (fst (run_updates m before)) critical)) = 1"
    using a by (intro run_critical_entry[OF clear]) simp_all
  with pre show "alerts (snd (run_updates m (before @ critical))) = 1"
    by (simp add: run_append alerts_def)
qed

text \<open>
  C7 as stated fails: in the fourteen-reading session the level is 20 at readings 11 to
  13 and rises to 40 at reading 14, and the alerted flag is still set after it.
\<close>

theorem low_fuel_flag_survives_level_40:
  "map fuelLevel (snd (run_updates new_fuelMonitor declining_run))
     = [100, 100, 100, 100, 100, 100, 100, 100, 100, 100, 20, 20, 20, 40]
   \<and> lowFuelAlerted (fst (run_updates new_fuelMonitor declining_run))"
  by code_simp

theorem low_fuel_alert_one_shot_witness:
  "\<not> lowFuelAlerted new_fuelMonitor
   \<and> list_all (\<lambda>st. fuelLevel st > 20) (snd (run_updates new_fuelMonitor (take 10 declining_run)))
   \<and> drop 10 (take 13 declining_run) \<noteq> []
   \<and> list_all (\<lambda>st. fuelLevel st \<le> 20)
        (snd (run_updates (fst (run_updates new_fuelMonitor (take 10 declining_run)))
           (drop 10 (take 13 declining_run))))
   \<and> alerts (snd (run_updates new_fuelMonitor
        (take 10 declining_run @ drop 10 (take 13 declining_run)))) = 1"
proof -
  have h1: "\<not> lowFuelAlerted new_fuelMonitor"
    by (simp add: new_fuelMonitor_def)
  have h2: "list_all (\<lambda>st. fuelLevel st > 20)
      (snd (run_updates new_fuelMonitor (take 10 declining_run)))"
    by code_simp
  have h3: "drop 10 (take 13 declining_run) \<noteq> []"
    by code_simp
  have h4: "list_all (\<lambda>st. fuelLevel st \<le> 20)
        (snd (run_updates (fst (run_updates new_fuelMonitor (take 10 declining_run)))
           (drop 10 (take 13 declining_run))))"
    by code_simp
  show ?thesis
    using low_fuel_alert_one_shot[of new_fuelMonitor 0 "sample_reading 5 300 80"
        "take 10 declining_run" "drop 10 (take 13 declining_run)"] h1 h2 h3 h4
    by blast
qed

text \<open>
  C4 on the code: with the fan in auto mode, a pit temperature of 200 and a raw pit set
  of 80 (a target of 225 degrees), \<open>updateFuelMonitor\<close> computes its target as
  \<open>80 - 145\<close> and the duty comes out as 0, where the target read as \<open>raw + 145\<close>
  gives \<open>(225 - 200) / 50 * 100 + 30 = 80\<close>.
\<close>

theorem fan_duty_auto_subtracts_offset:
  "decode_fields (sample_frame 0 200 80) = Some (sample_reading 0 200 80)
   \<and> fanSpeed (sample_reading 0 200 80) = 0
   \<and> pitTemp (sample_reading 0 200 80) = 200
   \<and> pitTargetTemp (pitSet (sample_reading 0 200 80)) = 225
   \<and> fanDutyPercent (sample_reading 0 200 80) = 0
   \<and> max 0 (min 100 ((of_int (225 - 200) / 50) * 100 + 30)) = (80::rat)"
  using decode_sample_frame[of 0 200 80]
  by (simp add: fanDutyPercent_def sample_reading_def pitTargetTemp_def)

text \<open>
  C5 on the code: a reading with the 999 sentinel is stored as the last pit temperature,
  so the next real reading (200 degrees, one minute later) puts the rate
  \<open>(200 - 999) / 1 = -799\<close> into the drop history and into the mean.
\<close>

theorem sentinel_as_previous_pit_temperature:
  "tempDropHistory (fst (run_updates new_fuelMonitor
      [(0, sample_reading 2 999 80), (60000, sample_reading 2 200 80)]))
     = [(60000, Fin (- 799))]
   \<and> map avgTempDrop (snd (run_updates new_fuelMonitor
      [(0, sample_reading 2 999 80), (60000, sample_reading 2 200 80)]))
     = [Fin 0, Fin (- 799)]"
  by (simp add: updateFuelMonitor_def dropSample_def new_fuelMonitor_def sample_reading_def
      js_div_def average_drop_def Let_def)

end
